theory Spec2Isabelle
  imports Main "HOL-Library.AList" "HOL-Library.Char_ord" "HOL-Library.List_Lexorder"
    "HOL-Library.Sublist"
begin

section \<open>Data model\<close>

text \<open>
  A Python \<^verbatim>\<open>dict\<close> keeps its keys in insertion order, and the program iterates over
  dictionaries, so a dictionary is an association list: \<^const>\<open>map_of\<close> reads a key,
  \<^const>\<open>AList.update\<close> is \<^verbatim>\<open>d[k] = v\<close> (the value is replaced in place when the key
  exists, the pair is appended otherwise) and \<^const>\<open>AList.map_entry\<close> changes the value
  stored under a key. The keys of a dictionary are distinct.
\<close>

type_synonym 'a graph = "('a \<times> 'a list) list"

type_synonym 'a cache = "('a \<times> nat) \<rightharpoonup> 'a list option"

text \<open>
  The exceptions the module can raise. \<open>ValueError\<close> carries its message,
  \<open>CycleError\<close> its \<^verbatim>\<open>cycle\<close> attribute. \<open>RecursionError\<close> is what the interpreter
  raises when the recursion of the cycle locator exceeds the recursion limit.
\<close>

datatype 'a error =
    ValueError string
  | KeyError 'a
  | TypeError
  | RecursionError
  | CycleError "'a list"

text \<open>The two shapes of a result: \<^verbatim>\<open>list[NT]\<close> and \<^verbatim>\<open>list[list[NT]]\<close>.\<close>

datatype 'a ordering = Nodes "'a list" | Groups "'a list list"

text \<open>
  The node type \<^verbatim>\<open>NT\<close> is a type variable. What the code asks of a node beyond equality
  is its truth value (\<^verbatim>\<open>if node:\<close>), whether it is a \<^verbatim>\<open>str\<close> (\<^verbatim>\<open>" -> ".join(cycle)\<close>)
  and, for \<^verbatim>\<open>sorted\<close>, a linear order. The first two are fields of the record below,
  together with the recursion limit of the interpreter.
\<close>

record 'a py =
  limit :: nat
  truthy :: "'a \<Rightarrow> bool"
  is_str :: "'a \<Rightarrow> bool"

section \<open>The cycle error and the cycle locator\<close>

text \<open>
  \<^verbatim>\<open>CycleError.__init__\<close> builds its message with \<^verbatim>\<open>" -> ".join(cycle)\<close>, which raises
  \<^verbatim>\<open>TypeError\<close> when \<^verbatim>\<open>cycle\<close> is \<^verbatim>\<open>None\<close> or holds an item that is not a string. The
  value is the exception that leaves \<^verbatim>\<open>raise CycleError(cycle)\<close>.
\<close>

definition CycleError_init :: "'a py \<Rightarrow> 'a list option \<Rightarrow> 'a error" where
  "CycleError_init P cycle =
     (case cycle of
        None \<Rightarrow> TypeError
      | Some c \<Rightarrow> if list_all (is_str P) c then CycleError c else TypeError)"

text \<open>
  The inner \<^verbatim>\<open>dfs\<close> of \<^verbatim>\<open>_get_cycle\<close>. It is wrapped in \<^verbatim>\<open>functools.cache\<close>: the cache,
  keyed by \<^verbatim>\<open>(curr, level)\<close>, is threaded through, read before the body runs and
  written when the body returns. The first argument is the number of frames left
  before the recursion limit; \<^verbatim>\<open>node\<close> is the variable of the enclosing scope.
\<close>

fun cycle_dfs :: "nat \<Rightarrow> 'a graph \<Rightarrow> 'a \<Rightarrow> 'a \<Rightarrow> nat \<Rightarrow> 'a cache
    \<Rightarrow> 'a error + ('a list option \<times> 'a cache)"
and cycle_dfs_for :: "nat \<Rightarrow> 'a graph \<Rightarrow> 'a \<Rightarrow> 'a \<Rightarrow> 'a list \<Rightarrow> nat \<Rightarrow> 'a cache
    \<Rightarrow> 'a error + ('a list option \<times> 'a cache)"
where
  "cycle_dfs 0 graph node cur level cache =
     (case cache (cur, level) of
        Some r \<Rightarrow> Inr (r, cache)
      | None \<Rightarrow> Inl RecursionError)"
| "cycle_dfs (Suc fuel) graph node cur level cache =
     (case cache (cur, level) of
        Some r \<Rightarrow> Inr (r, cache)
      | None \<Rightarrow>
         (case (if cur = node \<and> level \<noteq> 0 then Inr (Some [cur], cache)
                else case map_of graph cur of
                       None \<Rightarrow> Inl (KeyError cur)
                     | Some neighbours \<Rightarrow>
                         if length neighbours = 0 then Inr (None, cache)
                         else cycle_dfs_for fuel graph node cur neighbours (level + 1) cache)
          of Inl e \<Rightarrow> Inl e
           | Inr (r, cache') \<Rightarrow> Inr (r, cache'((cur, level) \<mapsto> r))))"
| "cycle_dfs_for fuel graph node cur [] level cache = Inr (None, cache)"
| "cycle_dfs_for fuel graph node cur (neighbour # rest) level cache =
     (case cycle_dfs fuel graph node neighbour level cache of
        Inl e \<Rightarrow> Inl e
      | Inr (Some path, cache') \<Rightarrow> Inr (Some (cur # path), cache')
      | Inr (None, cache') \<Rightarrow> cycle_dfs_for fuel graph node cur rest level cache')"

text \<open>The loop \<^verbatim>\<open>for node in graph\<close> of \<^verbatim>\<open>_get_cycle\<close>; the cache lives across its rounds.\<close>

fun get_cycle_loop :: "nat \<Rightarrow> 'a graph \<Rightarrow> 'a list \<Rightarrow> 'a cache \<Rightarrow> 'a error + 'a list option" where
  "get_cycle_loop fuel graph [] cache = Inr None"
| "get_cycle_loop fuel graph (node # rest) cache =
     (case cycle_dfs fuel graph node node 0 cache of
        Inl e \<Rightarrow> Inl e
      | Inr (path, cache') \<Rightarrow>
          if path \<noteq> None \<and> path \<noteq> Some [] then Inr path
          else get_cycle_loop fuel graph rest cache')"

definition get_cycle :: "'a py \<Rightarrow> 'a graph \<Rightarrow> 'a option \<Rightarrow> 'a error + 'a list option" where
  "get_cycle P graph node =
     (if (case node of None \<Rightarrow> False | Some n \<Rightarrow> truthy P n)
      then (case cycle_dfs (limit P) graph (the node) (the node) 0 Map.empty of
              Inl e \<Rightarrow> Inl e
            | Inr (path, cache') \<Rightarrow> Inr path)
      else get_cycle_loop (limit P) graph (map fst graph) Map.empty)"

section \<open>The graph normalizer\<close>

fun get_edges_inner :: "'a \<Rightarrow> 'a list \<Rightarrow> 'a graph \<times> ('a \<Rightarrow> int) \<Rightarrow> 'a graph \<times> ('a \<Rightarrow> int)" where
  "get_edges_inner node [] (new_graph, indegree) = (new_graph, indegree)"
| "get_edges_inner node (dependency # rest) (new_graph, indegree) =
     (if dependency = node then get_edges_inner node rest (new_graph, indegree)
      else
        let new_graph1 = (if map_of new_graph dependency = None
                          then AList.update dependency [] new_graph else new_graph);
            new_graph2 = AList.map_entry dependency (\<lambda>l. l @ [node]) new_graph1
        in get_edges_inner node rest (new_graph2, indegree(node := indegree node + 1)))"

fun get_edges_outer :: "'a graph \<Rightarrow> 'a graph \<times> ('a \<Rightarrow> int) \<Rightarrow> 'a graph \<times> ('a \<Rightarrow> int)" where
  "get_edges_outer [] st = st"
| "get_edges_outer ((node, dependencies) # rest) (new_graph, indegree) =
     get_edges_outer rest
       (get_edges_inner node dependencies
          (if map_of new_graph node = None then AList.update node [] new_graph else new_graph,
           indegree))"

definition get_edges_from_dependencies :: "'a graph \<Rightarrow> 'a graph \<times> ('a \<Rightarrow> int)" where
  "get_edges_from_dependencies graph = get_edges_outer graph ([], \<lambda>_. 0)"

fun prepare_inner :: "'a graph \<Rightarrow> 'a \<Rightarrow> 'a list \<Rightarrow> 'a graph \<times> ('a \<Rightarrow> int) \<Rightarrow> 'a graph \<times> ('a \<Rightarrow> int)" where
  "prepare_inner graph node [] (new_graph, indegree) = (new_graph, indegree)"
| "prepare_inner graph node (neighbour # rest) (new_graph, indegree) =
     (if neighbour = node then prepare_inner graph node rest (new_graph, indegree)
      else
        let new_graph1 = (if map_of graph neighbour = None
                          then AList.update neighbour [] new_graph else new_graph);
            new_graph2 = AList.map_entry node (\<lambda>l. l @ [neighbour]) new_graph1
        in prepare_inner graph node rest
             (new_graph2, indegree(neighbour := indegree neighbour + 1)))"

fun prepare_outer :: "'a graph \<Rightarrow> 'a graph \<Rightarrow> 'a graph \<times> ('a \<Rightarrow> int) \<Rightarrow> 'a graph \<times> ('a \<Rightarrow> int)" where
  "prepare_outer graph [] st = st"
| "prepare_outer graph ((node, neighbours) # rest) (new_graph, indegree) =
     prepare_outer graph rest
       (prepare_inner graph node neighbours (AList.update node [] new_graph, indegree))"

definition prepare_graph :: "'a graph \<Rightarrow> 'a graph \<times> ('a \<Rightarrow> int)" where
  "prepare_graph graph = prepare_outer graph graph ([], \<lambda>_. 0)"

section \<open>The breadth-first producer\<close>

text \<open>
  \<^verbatim>\<open>_check_cycle\<close>: \<open>None\<close> when it returns, the exception otherwise.
\<close>

definition check_cycle :: "'a py \<Rightarrow> 'a graph \<Rightarrow> 'a set \<Rightarrow> 'a error option" where
  "check_cycle P graph visited =
     (if card visited < length graph then
        Some (case get_cycle P (filter (\<lambda>(node, neighbours). node \<notin> visited) graph) None of
                Inl e \<Rightarrow> e
              | Inr cycle \<Rightarrow> CycleError_init P cycle)
      else None)"

text \<open>
  The loop over the neighbours of the popped node, shared by both generators: it
  decrements the indegree of each neighbour and appends the neighbour to \<open>target\<close>
  (the queue, or \<^verbatim>\<open>next_degree\<close>) when the indegree is then exactly zero.
\<close>

fun decrement_neighbours :: "'a list \<Rightarrow> ('a \<Rightarrow> int) \<Rightarrow> 'a list \<Rightarrow> ('a \<Rightarrow> int) \<times> 'a list" where
  "decrement_neighbours [] indegree target = (indegree, target)"
| "decrement_neighbours (neighbour # rest) indegree target =
     (let indegree' = indegree(neighbour := indegree neighbour - 1)
      in decrement_neighbours rest indegree'
           (if indegree' neighbour = 0 then target @ [neighbour] else target))"

text \<open>
  Both loops terminate: a round removes the head of the queue, and a neighbour is
  appended only when its indegree moves from one to zero, which makes the number of
  nodes with a positive indegree smaller.
\<close>

lemma decrement_measure:
  assumes "finite N" "set nbs \<subseteq> N"
  shows "length (snd (decrement_neighbours nbs ind tgt)) + card {v \<in> N. 0 < fst (decrement_neighbours nbs ind tgt) v}
         \<le> length tgt + card {v \<in> N. 0 < ind v}"
  using assms
proof (induction nbs arbitrary: ind tgt)
  case Nil
  then show ?case by simp
next
  case (Cons nb nbs)
  let ?ind' = "ind(nb := ind nb - 1)"
  let ?tgt' = "if ?ind' nb = 0 then tgt @ [nb] else tgt"
  have nbN: "nb \<in> N" using Cons.prems by simp
  have step: "length ?tgt' + card {v \<in> N. 0 < ?ind' v} \<le> length tgt + card {v \<in> N. 0 < ind v}"
  proof (cases "?ind' nb = 0")
    case True
    then have "ind nb = 1" by simp
    then have eq: "{v \<in> N. 0 < ind v} = insert nb {v \<in> N. 0 < ?ind' v}"
      using nbN by auto
    have "nb \<notin> {v \<in> N. 0 < ?ind' v}" using True by simp
    then have "card {v \<in> N. 0 < ind v} = Suc (card {v \<in> N. 0 < ?ind' v})"
      using eq Cons.prems(1) by simp
    then show ?thesis using True by simp
  next
    case False
    have "{v \<in> N. 0 < ?ind' v} \<subseteq> {v \<in> N. 0 < ind v}" by auto
    then have "card {v \<in> N. 0 < ?ind' v} \<le> card {v \<in> N. 0 < ind v}"
      using Cons.prems(1) by (simp add: card_mono)
    then show ?thesis using False by simp
  qed
  have "length (snd (decrement_neighbours nbs ?ind' ?tgt')) + card {v \<in> N. 0 < fst (decrement_neighbours nbs ?ind' ?tgt') v}
         \<le> length ?tgt' + card {v \<in> N. 0 < ?ind' v}"
    by (rule Cons.IH) (use Cons.prems in auto)
  moreover have "decrement_neighbours (nb # nbs) ind tgt = decrement_neighbours nbs ?ind' ?tgt'"
    by (simp only: decrement_neighbours.simps Let_def)
  ultimately show ?case using step by (simp only: le_trans)
qed

lemma decrement_measure_graph:
  assumes "map_of graph node = Some nbs" "(ind', tgt') = decrement_neighbours nbs ind tgt"
  shows "length tgt' + card {v \<in> \<Union> (set ` snd ` set graph). 0 < ind' v}
         \<le> length tgt + card {v \<in> \<Union> (set ` snd ` set graph). 0 < ind v}"
proof -
  have "set nbs \<subseteq> \<Union> (set ` snd ` set graph)"
    using assms(1) by (force dest: map_of_SomeD)
  from decrement_measure[OF _ this, of ind tgt] assms(2)[symmetric] show ?thesis by simp
qed

function node_loop :: "'a graph \<Rightarrow> ('a \<Rightarrow> int) \<Rightarrow> 'a list \<Rightarrow> 'a set \<Rightarrow> 'a list
    \<Rightarrow> 'a list \<times> 'a set \<times> 'a error option" where
  "node_loop graph indegree [] visited out = (out, visited, None)"
| "node_loop graph indegree (node # queue) visited out =
     (case map_of graph node of
        None \<Rightarrow> (out @ [node], insert node visited, Some (KeyError node))
      | Some neighbours \<Rightarrow>
          (case decrement_neighbours neighbours indegree queue of
             (indegree', queue') \<Rightarrow>
               node_loop graph indegree' queue' (insert node visited) (out @ [node])))"
  by pat_completeness auto
termination
  by (relation "measure (\<lambda>(graph, indegree, queue, visited, out).
          length queue + card {v \<in> \<Union> (set ` snd ` set graph). 0 < indegree v})")
     (auto simp: less_Suc_eq_le dest: decrement_measure_graph)

function group_loop :: "'a::linorder graph \<Rightarrow> bool \<Rightarrow> ('a \<Rightarrow> int) \<Rightarrow> 'a list \<Rightarrow> 'a set
    \<Rightarrow> 'a list \<Rightarrow> 'a list \<Rightarrow> 'a list list \<Rightarrow> 'a list list \<times> 'a set \<times> 'a error option" where
  "group_loop graph sort_groups indegree [] visited batch next_degree out = (out, visited, None)"
| "group_loop graph sort_groups indegree (node # queue) visited batch next_degree out =
     (case map_of graph node of
        None \<Rightarrow> (out, insert node visited, Some (KeyError node))
      | Some neighbours \<Rightarrow>
          (case decrement_neighbours neighbours indegree next_degree of
             (indegree', next_degree') \<Rightarrow>
               if queue = [] then
                 group_loop graph sort_groups indegree' next_degree' (insert node visited) [] []
                   (out @ [if sort_groups then sort (batch @ [node]) else batch @ [node]])
               else
                 group_loop graph sort_groups indegree' queue (insert node visited)
                   (batch @ [node]) next_degree' out))"
  by pat_completeness auto
termination
  by (relation "measure (\<lambda>(graph, sort_groups, indegree, queue, visited, batch, next_degree, out).
          length queue + length next_degree + card {v \<in> \<Union> (set ` snd ` set graph). 0 < indegree v})")
     (auto simp: less_Suc_eq_le dest: decrement_measure_graph)

text \<open>
  A generator is its trace when it is drained: what it yields, in order, and the
  exception that ends it, if one does. \<^verbatim>\<open>_node_generator\<close> yields the popped node
  before it reads \<^verbatim>\<open>graph[node]\<close>.
\<close>

definition node_generator :: "'a py \<Rightarrow> 'a graph \<Rightarrow> ('a \<Rightarrow> int) \<Rightarrow> 'a list
    \<Rightarrow> 'a list \<times> 'a error option" where
  "node_generator P graph indegree queue =
     (case node_loop graph indegree queue {} [] of
        (out, visited, Some e) \<Rightarrow> (out, Some e)
      | (out, visited, None) \<Rightarrow> (out, check_cycle P graph visited))"

definition group_generator :: "'a::linorder py \<Rightarrow> 'a graph \<Rightarrow> ('a \<Rightarrow> int) \<Rightarrow> 'a list \<Rightarrow> bool
    \<Rightarrow> 'a list list \<times> 'a error option" where
  "group_generator P graph indegree queue sort_groups =
     (case group_loop graph sort_groups indegree queue {} [] [] [] of
        (out, visited, Some e) \<Rightarrow> (out, Some e)
      | (out, visited, None) \<Rightarrow> (out, check_cycle P graph visited))"

text \<open>
  \<^verbatim>\<open>topological_sort_generator\<close> compares \<^verbatim>\<open>graph_type\<close> with \<^verbatim>\<open>'dependencies'\<close> and
  \<^verbatim>\<open>return_type\<close> with \<^verbatim>\<open>'nodes'\<close>, and nothing else.
\<close>

definition topological_sort_generator :: "'a::linorder py \<Rightarrow> 'a graph \<Rightarrow> string \<Rightarrow> bool \<Rightarrow> string
    \<Rightarrow> 'a ordering \<times> 'a error option" where
  "topological_sort_generator P graph return_type sort_groups graph_type =
     (case (if graph_type = ''dependencies'' then get_edges_from_dependencies graph
            else prepare_graph graph) of
        (new_graph, indegree) \<Rightarrow>
          let queue = filter (\<lambda>node. indegree node = 0) (map fst new_graph)
          in if return_type = ''nodes'' then
               if sort_groups then
                 (case group_generator P new_graph indegree queue sort_groups of
                    (groups, e) \<Rightarrow> (Nodes (concat groups), e))
               else
                 (case node_generator P new_graph indegree queue of
                    (nodes, e) \<Rightarrow> (Nodes nodes, e))
             else
               (case group_generator P new_graph indegree queue sort_groups of
                  (groups, e) \<Rightarrow> (Groups groups, e)))"

text \<open>\<^verbatim>\<open>list(...)\<close> drains the generator: an exception of the generator leaves the call.\<close>

definition bfs_topological_sort :: "'a::linorder py \<Rightarrow> 'a graph \<Rightarrow> string \<Rightarrow> bool \<Rightarrow> string
    \<Rightarrow> 'a error + 'a ordering" where
  "bfs_topological_sort P graph return_type sort_groups graph_type =
     (case topological_sort_generator P graph return_type sort_groups graph_type of
        (out, Some e) \<Rightarrow> Inl e
      | (out, None) \<Rightarrow> Inr out)"

section \<open>The depth-first producer\<close>

text \<open>
  The inner \<^verbatim>\<open>dfs\<close> of \<^verbatim>\<open>_dfs_topological_sort\<close> and the loop over the neighbours.
  \<^verbatim>\<open>visited\<close> and \<^verbatim>\<open>sorted_list\<close> are the state, passed and returned. A call adds its
  node to \<^verbatim>\<open>currently_visiting\<close> after the membership test and removes it before it
  returns, so the set is the same before and after a call that returns: it is an
  argument. The cycle locator is called on \<^verbatim>\<open>graph\<close>, the mapping the caller gave.
\<close>

lemma card_active_path:
  assumes "map_of new_graph node = Some neighbours" "node \<notin> cv"
  shows "card (fst ` set new_graph - insert node cv) < card (fst ` set new_graph - cv)"
proof -
  have "node \<in> fst ` set new_graph"
    using assms(1) by (force dest: map_of_SomeD)
  then have "fst ` set new_graph - insert node cv \<subset> fst ` set new_graph - cv"
    using assms(2) by auto
  then show ?thesis by (simp add: psubset_card_mono)
qed

function dfs :: "'a py \<Rightarrow> 'a graph \<Rightarrow> 'a graph \<Rightarrow> 'a set \<Rightarrow> 'a \<Rightarrow> 'a set \<times> 'a list
    \<Rightarrow> 'a error + ('a set \<times> 'a list)"
and dfs_for :: "'a py \<Rightarrow> 'a graph \<Rightarrow> 'a graph \<Rightarrow> 'a set \<Rightarrow> 'a list \<Rightarrow> 'a set \<times> 'a list
    \<Rightarrow> 'a error + ('a set \<times> 'a list)"
where
  "dfs P graph new_graph currently_visiting node (visited, sorted_list) =
     (if node \<in> currently_visiting then
        Inl (case get_cycle P graph (Some node) of
               Inl e \<Rightarrow> e
             | Inr cycle \<Rightarrow> CycleError_init P cycle)
      else
        case map_of new_graph node of
          None \<Rightarrow> Inl (KeyError node)
        | Some neighbours \<Rightarrow>
            (case dfs_for P graph new_graph (insert node currently_visiting) neighbours
                    (visited, sorted_list) of
               Inl e \<Rightarrow> Inl e
             | Inr (visited', sorted_list') \<Rightarrow>
                 Inr (insert node visited', sorted_list' @ [node])))"
| "dfs_for P graph new_graph currently_visiting [] st = Inr st"
| "dfs_for P graph new_graph currently_visiting (neighbour # rest) (visited, sorted_list) =
     (if neighbour \<notin> visited then
        (case dfs P graph new_graph currently_visiting neighbour (visited, sorted_list) of
           Inl e \<Rightarrow> Inl e
         | Inr st' \<Rightarrow> dfs_for P graph new_graph currently_visiting rest st')
      else dfs_for P graph new_graph currently_visiting rest (visited, sorted_list))"
  by pat_completeness auto
termination
  by (relation "inv_image (less_than <*lex*> less_than)
        (\<lambda>x. case x of
           Inl (P, graph, new_graph, cv, node, st) \<Rightarrow> (card (fst ` set new_graph - cv), 0)
         | Inr (P, graph, new_graph, cv, nodes, st) \<Rightarrow>
             (card (fst ` set new_graph - cv), Suc (length nodes)))")
     (auto dest: card_active_path)

text \<open>
  The loop \<^verbatim>\<open>for node in new_graph\<close> has the shape of the loop over the neighbours,
  with nothing on the active path.
\<close>

definition dfs_topological_sort :: "'a py \<Rightarrow> 'a graph \<Rightarrow> string \<Rightarrow> 'a error + 'a list" where
  "dfs_topological_sort P graph graph_type =
     (case (if graph_type = ''dependencies'' then get_edges_from_dependencies graph
            else prepare_graph graph) of
        (new_graph, indegree) \<Rightarrow>
          (case dfs_for P graph new_graph {} (map fst new_graph) ({}, []) of
             Inl e \<Rightarrow> Inl e
           | Inr (visited, sorted_list) \<Rightarrow> Inr (rev sorted_list)))"

section \<open>The facade\<close>

definition validate_return_type :: "string \<Rightarrow> 'a error option" where
  \<open>validate_return_type return_type =
     (if return_type \<notin> {''nodes'', ''groups''} then
        Some (ValueError (''Return type "'' @ return_type @ ''", invalid. ''
                @ ''Return type must be "nodes" or "groups".''))
      else None)\<close>

definition validate_graph_type :: "string \<Rightarrow> 'a error option" where
  \<open>validate_graph_type graph_type =
     (if graph_type \<notin> {''edges'', ''dependencies''} then
        Some (ValueError (''Graph type "'' @ graph_type @ ''", invalid. ''
                @ ''Graph type must be "edges" or "dependencies".''))
      else None)\<close>

definition topological_sort :: "'a::linorder py \<Rightarrow> 'a graph \<Rightarrow> string \<Rightarrow> string \<Rightarrow> bool \<Rightarrow> string
    \<Rightarrow> 'a error + 'a ordering" where
  \<open>topological_sort P graph method return_type sort_groups graph_type =
     (case validate_return_type return_type of
        Some e \<Rightarrow> Inl e
      | None \<Rightarrow>
     (case validate_graph_type graph_type of
        Some e \<Rightarrow> Inl e
      | None \<Rightarrow>
          if method = ''bfs'' then
            bfs_topological_sort P graph return_type sort_groups graph_type
          else if method = ''dfs'' then
            if return_type \<noteq> ''nodes'' then
              Inl (ValueError (''If sort method is depth-first search, ''
                     @ ''return type must be "nodes".''))
            else if sort_groups then
              Inl (ValueError (''If sort method is depth-first search, ''
                     @ ''cannot sort indegree groups.''))
            else
              (case dfs_topological_sort P graph graph_type of
                 Inl e \<Rightarrow> Inl e
               | Inr nodes \<Rightarrow> Inr (Nodes nodes))
          else
            Inl (ValueError (''Method "'' @ method @ ''", invalid. ''
                   @ ''Method must be "bfs" or "dfs".''))))\<close>

section \<open>Notions the properties are stated with\<close>

text \<open>Python's \<^verbatim>\<open>str\<close> as node type: the empty string is false, every node is a string.\<close>

definition str_nodes :: "nat \<Rightarrow> string py" where
  "str_nodes n = \<lparr>limit = n, truthy = (\<lambda>s. s \<noteq> []), is_str = (\<lambda>s. True)\<rparr>"

text \<open>\<open>precedes u v xs\<close>: \<open>u\<close> occurs in \<open>xs\<close>, and \<open>v\<close> occurs after its first occurrence
  and not before it.\<close>

fun precedes :: "'a \<Rightarrow> 'a \<Rightarrow> 'a list \<Rightarrow> bool" where
  "precedes u v [] = False"
| "precedes u v (x # xs) =
     (if x = u then v \<in> set xs else if x = v then False else precedes u v xs)"

text \<open>The graph of the test suite (\<^verbatim>\<open>TEST_GRAPH\<close>) and what the scenario asks of a result.\<close>

definition TEST_GRAPH :: "string graph" where
  "TEST_GRAPH = [(''D'', [''B'', ''C'']), (''C'', [''A'', ''C'', ''E'']), (''B'', [''A''])]"

text \<open>\<open>scenario_order\<close> is the order as the scenario words it: D before B and C, and both
  B and C before both A and E. \<open>scenario_edge_order\<close> asks it of the five edges of the
  graph only (there is no edge from B to E).\<close>

definition scenario_order :: "string error + string ordering \<Rightarrow> bool" where
  "scenario_order r =
     (case r of
        Inr (Nodes xs) \<Rightarrow>
          precedes ''D'' ''B'' xs \<and> precedes ''D'' ''C'' xs \<and>
          precedes ''B'' ''A'' xs \<and> precedes ''B'' ''E'' xs \<and>
          precedes ''C'' ''A'' xs \<and> precedes ''C'' ''E'' xs
      | _ \<Rightarrow> False)"

definition scenario_edge_order :: "string error + string ordering \<Rightarrow> bool" where
  "scenario_edge_order r =
     (case r of
        Inr (Nodes xs) \<Rightarrow>
          precedes ''D'' ''B'' xs \<and> precedes ''D'' ''C'' xs \<and>
          precedes ''B'' ''A'' xs \<and>
          precedes ''C'' ''A'' xs \<and> precedes ''C'' ''E'' xs
      | _ \<Rightarrow> False)"

definition scenario_groups :: "string error + string ordering \<Rightarrow> bool" where
  "scenario_groups r =
     (case r of
        Inr (Groups gs) \<Rightarrow> map set gs = [{''D''}, {''B'', ''C''}, {''A'', ''E''}]
      | _ \<Rightarrow> False)"

text \<open>
  \<open>input_edge graph u v\<close>: \<open>v\<close> is listed under the key \<open>u\<close> of the mapping \<open>graph\<close>.
  \<open>path_in graph p\<close>: every two consecutive nodes of \<open>p\<close> are such an entry.
\<close>

definition input_edge :: "'a graph \<Rightarrow> 'a \<Rightarrow> 'a \<Rightarrow> bool" where
  "input_edge graph u v = (case map_of graph u of None \<Rightarrow> False | Some neighbours \<Rightarrow> v \<in> set neighbours)"

fun path_in :: "'a graph \<Rightarrow> 'a list \<Rightarrow> bool" where
  "path_in graph [] = True"
| "path_in graph [u] = True"
| "path_in graph (u # v # rest) = (input_edge graph u v \<and> path_in graph (v # rest))"

definition path_from :: "'a graph \<Rightarrow> 'a \<Rightarrow> 'a list \<Rightarrow> bool" where
  "path_from graph u p = (p \<noteq> [] \<and> hd p = u \<and> path_in graph p)"

text \<open>The invariant of the cache: a cached path starts at its key and runs along entries.\<close>

definition cache_ok :: "'a graph \<Rightarrow> 'a cache \<Rightarrow> bool" where
  "cache_ok graph cache = (\<forall>x l p. cache (x, l) = Some (Some p) \<longrightarrow> path_from graph x p)"

text \<open>What \<^verbatim>\<open>raise CycleError(_get_cycle(graph, node))\<close> can leave behind.\<close>

definition raise_cycle :: "'a py \<Rightarrow> 'a graph \<Rightarrow> 'a option \<Rightarrow> 'a error" where
  "raise_cycle P graph node =
     (case get_cycle P graph node of Inl e \<Rightarrow> e | Inr cycle \<Rightarrow> CycleError_init P cycle)"

text \<open>Python's \<^verbatim>\<open>int\<close> as node type: zero is false, no node is a string.\<close>

definition int_nodes :: "nat \<Rightarrow> int py" where
  "int_nodes n = \<lparr>limit = n, truthy = (\<lambda>i. i \<noteq> 0), is_str = (\<lambda>i. False)\<rparr>"

text \<open>
  Graphs the properties are tried on: two cycles, the second entered from the first
  (as strings and as integers); one cycle of two integers; a cycle beside a node that is no key of the input; a
  cycle through a node that lists itself, and the same graph without that entry; a
  cycle of three dependencies.
\<close>

definition TWO_CYCLES :: "string graph" where
  "TWO_CYCLES = [(''A'', [''C'', ''B'']), (''B'', [''A'']), (''C'', [''D'']), (''D'', [''C''])]"

definition INT_TWO_CYCLES :: "int graph" where
  "INT_TWO_CYCLES = [(1, [3, 2]), (2, [1]), (3, [4]), (4, [3])]"

definition INT_CYCLE :: "int graph" where
  "INT_CYCLE = [(1, [2]), (2, [1])]"

definition IMPLICIT_NODE :: "string graph" where
  "IMPLICIT_NODE = [(''A'', [''B'', ''C'']), (''C'', [''A''])]"

definition SELF_LOOP :: "string graph" where
  "SELF_LOOP = [(''A'', [''A'', ''B'']), (''B'', [''A''])]"

definition NO_SELF_LOOP :: "string graph" where
  "NO_SELF_LOOP = [(''A'', [''B'']), (''B'', [''A''])]"

definition DEPENDENCY_CYCLE :: "string graph" where
  "DEPENDENCY_CYCLE = [(''A'', [''B'']), (''B'', [''C'']), (''C'', [''A''])]"

section \<open>The concrete scenario\<close>

lemma prepare_TEST_GRAPH:
  "prepare_graph TEST_GRAPH =
     ([(''D'', [''B'', ''C'']), (''C'', [''A'', ''E'']), (''A'', []), (''E'', []), (''B'', [''A''])],
      (\<lambda>_. 0)(''B'' := 1, ''C'' := 1, ''A'' := 2, ''E'' := 1))"
  by (simp add: prepare_graph_def TEST_GRAPH_def fun_upd_twist)

lemma TEST_GRAPH_bfs_nodes:
  "topological_sort P TEST_GRAPH ''bfs'' ''nodes'' False ''edges''
     = Inr (Nodes [''D'', ''B'', ''C'', ''A'', ''E''])"
  by (simp add: topological_sort_def validate_return_type_def validate_graph_type_def
      bfs_topological_sort_def topological_sort_generator_def prepare_TEST_GRAPH
      node_generator_def check_cycle_def)

lemma TEST_GRAPH_bfs_nodes_sorted:
  "topological_sort P TEST_GRAPH ''bfs'' ''nodes'' True ''edges''
     = Inr (Nodes [''D'', ''B'', ''C'', ''A'', ''E''])"
  by (simp add: topological_sort_def validate_return_type_def validate_graph_type_def
      bfs_topological_sort_def topological_sort_generator_def prepare_TEST_GRAPH
      group_generator_def check_cycle_def)

lemma TEST_GRAPH_dfs_nodes:
  "topological_sort P TEST_GRAPH ''dfs'' ''nodes'' False ''edges''
     = Inr (Nodes [''D'', ''C'', ''E'', ''B'', ''A''])"
  by (simp add: topological_sort_def validate_return_type_def validate_graph_type_def
      dfs_topological_sort_def prepare_TEST_GRAPH)

lemma TEST_GRAPH_bfs_groups:
  "topological_sort P TEST_GRAPH ''bfs'' ''groups'' sort_groups ''edges''
     = Inr (Groups [[''D''], [''B'', ''C''], [''A'', ''E'']])"
  by (cases sort_groups)
     (simp_all add: topological_sort_def validate_return_type_def validate_graph_type_def
       bfs_topological_sort_def topological_sort_generator_def prepare_TEST_GRAPH
       group_generator_def check_cycle_def)

text \<open>
  C7, as stated, fails for the depth-first method: it returns D, C, E, B, A, where E
  stands before B.
\<close>

theorem C7_dfs_counterexample:
  "topological_sort (str_nodes 1000) TEST_GRAPH ''dfs'' ''nodes'' False ''edges''
     = Inr (Nodes [''D'', ''C'', ''E'', ''B'', ''A'']) \<and>
   \<not> scenario_order (topological_sort (str_nodes 1000) TEST_GRAPH ''dfs'' ''nodes'' False ''edges'')"
  unfolding TEST_GRAPH_dfs_nodes
  by (simp add: scenario_order_def)

text \<open>
  C7, amended. On \<^verbatim>\<open>{'D': ['B','C'], 'C': ['A','C','E'], 'B': ['A']}\<close> with
  \<^verbatim>\<open>graph_type='edges'\<close>, each of the three calls that return a flat list (bfs, bfs with
  sorted groups, dfs) puts D before B and C, B before A, and C before A and E; the
  breadth-first calls also put B before E. The two calls that return groups give three
  batches with the members {D}, {B, C}, {A, E}, in this order.
\<close>

theorem C7_concrete_scenario:
  "scenario_order (topological_sort P TEST_GRAPH ''bfs'' ''nodes'' False ''edges'') \<and>
   scenario_order (topological_sort P TEST_GRAPH ''bfs'' ''nodes'' True ''edges'') \<and>
   scenario_edge_order (topological_sort P TEST_GRAPH ''dfs'' ''nodes'' False ''edges'') \<and>
   scenario_groups (topological_sort P TEST_GRAPH ''bfs'' ''groups'' False ''edges'') \<and>
   scenario_groups (topological_sort P TEST_GRAPH ''bfs'' ''groups'' True ''edges'')"
  unfolding TEST_GRAPH_bfs_nodes TEST_GRAPH_bfs_nodes_sorted TEST_GRAPH_dfs_nodes
    TEST_GRAPH_bfs_groups
  by (simp add: scenario_order_def scenario_edge_order_def scenario_groups_def)

section \<open>Parameter validation\<close>

lemma sublist_mid: "sublist v (a @ v @ b)"
  by (rule sublist_appendI)

lemma sublist_tail: "sublist s b \<Longrightarrow> sublist s (a @ v @ b)"
  by (metis sublist_append)

lemma return_type_message_names:
  \<open>sublist ''"nodes"'' ''", invalid. Return type must be "nodes" or "groups".''\<close>
  \<open>sublist ''"groups"'' ''", invalid. Return type must be "nodes" or "groups".''\<close>
  by code_simp+

lemma graph_type_message_names:
  \<open>sublist ''"edges"'' ''", invalid. Graph type must be "edges" or "dependencies".''\<close>
  \<open>sublist ''"dependencies"'' ''", invalid. Graph type must be "edges" or "dependencies".''\<close>
  by code_simp+

lemma method_message_names:
  \<open>sublist ''"bfs"'' ''", invalid. Method must be "bfs" or "dfs".''\<close>
  \<open>sublist ''"dfs"'' ''", invalid. Method must be "bfs" or "dfs".''\<close>
  by code_simp+

lemma invalid_return_type:
  assumes "return_type \<notin> {''nodes'', ''groups''}"
  shows \<open>\<exists>msg. (\<forall>P graph. topological_sort P graph method return_type sort_groups graph_type
                    = Inl (ValueError msg))
         \<and> sublist return_type msg \<and> sublist ''"nodes"'' msg \<and> sublist ''"groups"'' msg\<close>
proof -
  let ?b = \<open>''", invalid. Return type must be "nodes" or "groups".''\<close>
  let ?msg = \<open>''Return type "'' @ return_type @ ?b\<close>
  have "\<forall>P graph. topological_sort P graph method return_type sort_groups graph_type
          = Inl (ValueError ?msg)"
    using assms by (simp add: topological_sort_def validate_return_type_def)
  moreover have "sublist return_type ?msg" by (rule sublist_mid)
  moreover have \<open>sublist ''"nodes"'' ?msg\<close>
    by (rule sublist_tail) (rule return_type_message_names)
  moreover have \<open>sublist ''"groups"'' ?msg\<close>
    by (rule sublist_tail) (rule return_type_message_names)
  ultimately show ?thesis by blast
qed

lemma invalid_graph_type:
  assumes "return_type \<in> {''nodes'', ''groups''}" "graph_type \<notin> {''edges'', ''dependencies''}"
  shows \<open>\<exists>msg. (\<forall>P graph. topological_sort P graph method return_type sort_groups graph_type
                    = Inl (ValueError msg))
         \<and> sublist graph_type msg \<and> sublist ''"edges"'' msg \<and> sublist ''"dependencies"'' msg\<close>
proof -
  let ?b = \<open>''", invalid. Graph type must be "edges" or "dependencies".''\<close>
  let ?msg = \<open>''Graph type "'' @ graph_type @ ?b\<close>
  have "\<forall>P graph. topological_sort P graph method return_type sort_groups graph_type
          = Inl (ValueError ?msg)"
    using assms
    by (auto simp add: topological_sort_def validate_return_type_def validate_graph_type_def)
  moreover have "sublist graph_type ?msg" by (rule sublist_mid)
  moreover have \<open>sublist ''"edges"'' ?msg\<close>
    by (rule sublist_tail) (rule graph_type_message_names)
  moreover have \<open>sublist ''"dependencies"'' ?msg\<close>
    by (rule sublist_tail) (rule graph_type_message_names)
  ultimately show ?thesis by blast
qed

lemma invalid_method:
  assumes "return_type \<in> {''nodes'', ''groups''}" "graph_type \<in> {''edges'', ''dependencies''}"
    "method \<notin> {''bfs'', ''dfs''}"
  shows \<open>\<exists>msg. (\<forall>P graph. topological_sort P graph method return_type sort_groups graph_type
                    = Inl (ValueError msg))
         \<and> sublist method msg \<and> sublist ''"bfs"'' msg \<and> sublist ''"dfs"'' msg\<close>
proof -
  let ?b = \<open>''", invalid. Method must be "bfs" or "dfs".''\<close>
  let ?msg = \<open>''Method "'' @ method @ ?b\<close>
  have "\<forall>P graph. topological_sort P graph method return_type sort_groups graph_type
          = Inl (ValueError ?msg)"
    using assms
    by (auto simp add: topological_sort_def validate_return_type_def validate_graph_type_def)
  moreover have "sublist method ?msg" by (rule sublist_mid)
  moreover have \<open>sublist ''"bfs"'' ?msg\<close>
    by (rule sublist_tail) (rule method_message_names)
  moreover have \<open>sublist ''"dfs"'' ?msg\<close>
    by (rule sublist_tail) (rule method_message_names)
  ultimately show ?thesis by blast
qed

lemma dfs_groups_rejected:
  assumes "graph_type \<in> {''edges'', ''dependencies''}"
  shows \<open>topological_sort P graph ''dfs'' ''groups'' sort_groups graph_type =
          Inl (ValueError ''If sort method is depth-first search, return type must be "nodes".'')\<close>
  using assms
  by (auto simp add: topological_sort_def validate_return_type_def validate_graph_type_def)

lemma dfs_sort_groups_rejected:
  assumes "graph_type \<in> {''edges'', ''dependencies''}"
  shows \<open>topological_sort P graph ''dfs'' ''nodes'' True graph_type =
          Inl (ValueError ''If sort method is depth-first search, cannot sort indegree groups.'')\<close>
  using assms
  by (auto simp add: topological_sort_def validate_return_type_def validate_graph_type_def)

text \<open>
  C5, as stated, fails for the two combinations with \<^verbatim>\<open>method='dfs'\<close>: their messages are
  fixed texts. The one for \<^verbatim>\<open>return_type='groups'\<close> names neither \<^verbatim>\<open>dfs\<close> nor \<^verbatim>\<open>groups\<close>;
  the one for \<^verbatim>\<open>sort_groups=True\<close> names no value and no alternative.
\<close>

theorem C5_message_counterexample:
  \<open>topological_sort (str_nodes 1000) TEST_GRAPH ''dfs'' ''groups'' False ''edges'' =
     Inl (ValueError ''If sort method is depth-first search, return type must be "nodes".'') \<and>
   \<not> sublist ''groups'' ''If sort method is depth-first search, return type must be "nodes".'' \<and>
   \<not> sublist ''dfs'' ''If sort method is depth-first search, return type must be "nodes".'' \<and>
   topological_sort (str_nodes 1000) TEST_GRAPH ''dfs'' ''nodes'' True ''edges'' =
     Inl (ValueError ''If sort method is depth-first search, cannot sort indegree groups.'') \<and>
   \<not> sublist ''True'' ''If sort method is depth-first search, cannot sort indegree groups.'' \<and>
   \<not> sublist ''False'' ''If sort method is depth-first search, cannot sort indegree groups.''\<close>
proof (intro conjI)
  show \<open>topological_sort (str_nodes 1000) TEST_GRAPH ''dfs'' ''groups'' False ''edges'' =
     Inl (ValueError ''If sort method is depth-first search, return type must be "nodes".'')\<close>
    by (rule dfs_groups_rejected) simp
  show \<open>topological_sort (str_nodes 1000) TEST_GRAPH ''dfs'' ''nodes'' True ''edges'' =
     Inl (ValueError ''If sort method is depth-first search, cannot sort indegree groups.'')\<close>
    by (rule dfs_sort_groups_rejected) simp
qed code_simp+

text \<open>
  C5, amended. Whatever the graph, \<^verbatim>\<open>topological_sort\<close> ends with a \<^verbatim>\<open>ValueError\<close> that
  does not depend on the graph for an unrecognized \<^verbatim>\<open>return_type\<close>, an unrecognized
  \<^verbatim>\<open>graph_type\<close>, an unrecognized \<^verbatim>\<open>method\<close>, \<^verbatim>\<open>method='dfs'\<close> with
  \<^verbatim>\<open>return_type='groups'\<close>, and \<^verbatim>\<open>method='dfs'\<close> with \<^verbatim>\<open>sort_groups=True\<close>. The checks run
  in this order. The message for an unrecognized value names the value and the two
  allowed ones, in double quotes; the messages of the two combinations are fixed texts.
\<close>

theorem C5_invalid_arguments:
  \<open>(return_type \<notin> {''nodes'', ''groups''} \<longrightarrow>
      (\<exists>msg. (\<forall>P graph. topological_sort P graph sort_method return_type sort_groups graph_type
                  = Inl (ValueError msg))
         \<and> sublist return_type msg \<and> sublist ''"nodes"'' msg \<and> sublist ''"groups"'' msg)) \<and>
   (return_type \<in> {''nodes'', ''groups''} \<and> graph_type \<notin> {''edges'', ''dependencies''} \<longrightarrow>
      (\<exists>msg. (\<forall>P graph. topological_sort P graph sort_method return_type sort_groups graph_type
                  = Inl (ValueError msg))
         \<and> sublist graph_type msg \<and> sublist ''"edges"'' msg \<and> sublist ''"dependencies"'' msg)) \<and>
   (return_type \<in> {''nodes'', ''groups''} \<and> graph_type \<in> {''edges'', ''dependencies''}
      \<and> sort_method \<notin> {''bfs'', ''dfs''} \<longrightarrow>
      (\<exists>msg. (\<forall>P graph. topological_sort P graph sort_method return_type sort_groups graph_type
                  = Inl (ValueError msg))
         \<and> sublist sort_method msg \<and> sublist ''"bfs"'' msg \<and> sublist ''"dfs"'' msg)) \<and>
   (graph_type \<in> {''edges'', ''dependencies''} \<longrightarrow>
      (\<forall>P graph. topological_sort P graph ''dfs'' ''groups'' sort_groups graph_type =
        Inl (ValueError ''If sort method is depth-first search, return type must be "nodes".''))) \<and>
   (graph_type \<in> {''edges'', ''dependencies''} \<longrightarrow>
      (\<forall>P graph. topological_sort P graph ''dfs'' ''nodes'' True graph_type =
        Inl (ValueError ''If sort method is depth-first search, cannot sort indegree groups.'')))\<close>
  using invalid_return_type [of return_type sort_method sort_groups graph_type]
    invalid_graph_type [of return_type graph_type sort_method sort_groups]
    invalid_method [of return_type graph_type sort_method sort_groups]
    dfs_groups_rejected [of graph_type _ _ sort_groups]
    dfs_sort_groups_rejected [of graph_type]
  by blast

theorem C5_invalid_arguments_witness:
  \<open>(\<exists>msg. (\<forall>P graph. topological_sort P graph ''bfs'' ''bananas'' False ''edges''
              = (Inl (ValueError msg) :: string error + string ordering))
      \<and> sublist ''bananas'' msg \<and> sublist ''"nodes"'' msg \<and> sublist ''"groups"'' msg) \<and>
   (\<exists>msg. (\<forall>P graph. topological_sort P graph ''bfs'' ''nodes'' False ''graph''
              = (Inl (ValueError msg) :: string error + string ordering))
      \<and> sublist ''graph'' msg \<and> sublist ''"edges"'' msg \<and> sublist ''"dependencies"'' msg) \<and>
   (\<exists>msg. (\<forall>P graph. topological_sort P graph ''cfs'' ''nodes'' False ''edges''
              = (Inl (ValueError msg) :: string error + string ordering))
      \<and> sublist ''cfs'' msg \<and> sublist ''"bfs"'' msg \<and> sublist ''"dfs"'' msg) \<and>
   (\<forall>P graph. topological_sort P graph ''dfs'' ''groups'' False ''edges'' =
      (Inl (ValueError ''If sort method is depth-first search, return type must be "nodes".'')
         :: string error + string ordering)) \<and>
   (\<forall>P graph. topological_sort P graph ''dfs'' ''nodes'' True ''edges'' =
      (Inl (ValueError ''If sort method is depth-first search, cannot sort indegree groups.'')
         :: string error + string ordering))\<close>
proof -
  have a: "''bananas'' \<notin> {''nodes'', ''groups''}" by simp
  have b: "''nodes'' \<in> {''nodes'', ''groups''} \<and> ''graph'' \<notin> {''edges'', ''dependencies''}" by simp
  have c: "''nodes'' \<in> {''nodes'', ''groups''} \<and> ''edges'' \<in> {''edges'', ''dependencies''}
      \<and> ''cfs'' \<notin> {''bfs'', ''dfs''}" by simp
  have d: "''edges'' \<in> {''edges'', ''dependencies''}" by simp
  from C5_invalid_arguments [where return_type = "''bananas''" and sort_method = "''bfs''"
      and sort_groups = False and graph_type = "''edges''" and 'b = string] a
  have 1: \<open>\<exists>msg. (\<forall>P graph. topological_sort P graph ''bfs'' ''bananas'' False ''edges''
              = (Inl (ValueError msg) :: string error + string ordering))
      \<and> sublist ''bananas'' msg \<and> sublist ''"nodes"'' msg \<and> sublist ''"groups"'' msg\<close>
    by blast
  from C5_invalid_arguments [where return_type = "''nodes''" and sort_method = "''bfs''"
      and sort_groups = False and graph_type = "''graph''" and 'b = string] b
  have 2: \<open>\<exists>msg. (\<forall>P graph. topological_sort P graph ''bfs'' ''nodes'' False ''graph''
              = (Inl (ValueError msg) :: string error + string ordering))
      \<and> sublist ''graph'' msg \<and> sublist ''"edges"'' msg \<and> sublist ''"dependencies"'' msg\<close>
    by blast
  from C5_invalid_arguments [where return_type = "''nodes''" and sort_method = "''cfs''"
      and sort_groups = False and graph_type = "''edges''" and 'b = string] c
  have 3: \<open>\<exists>msg. (\<forall>P graph. topological_sort P graph ''cfs'' ''nodes'' False ''edges''
              = (Inl (ValueError msg) :: string error + string ordering))
      \<and> sublist ''cfs'' msg \<and> sublist ''"bfs"'' msg \<and> sublist ''"dfs"'' msg\<close>
    by blast
  from C5_invalid_arguments [where return_type = "''nodes''" and sort_method = "''dfs''"
      and sort_groups = False and graph_type = "''edges''" and 'b = string] d
  have 4: \<open>\<forall>P graph. topological_sort P graph ''dfs'' ''groups'' False ''edges'' =
      (Inl (ValueError ''If sort method is depth-first search, return type must be "nodes".'')
         :: string error + string ordering)\<close>
    \<open>\<forall>P graph. topological_sort P graph ''dfs'' ''nodes'' True ''edges'' =
      (Inl (ValueError ''If sort method is depth-first search, cannot sort indegree groups.'')
         :: string error + string ordering)\<close>
    by blast+
  from 1 2 3 4 show ?thesis by blast
qed

section \<open>What the cycle locator returns\<close>

lemma path_from_Cons:
  "input_edge graph u v \<Longrightarrow> path_from graph v p \<Longrightarrow> path_from graph u (u # p)"
  by (cases p) (auto simp: path_from_def)

lemma cache_ok_upd:
  "cache_ok graph cache \<Longrightarrow> (\<forall>p. r = Some p \<longrightarrow> path_from graph x p)
     \<Longrightarrow> cache_ok graph (cache((x, l) \<mapsto> r))"
  by (simp add: cache_ok_def)

lemma cache_ok_hit:
  "cache_ok graph cache \<Longrightarrow> cache (x, l) = Some r \<Longrightarrow> (\<forall>p. r = Some p \<longrightarrow> path_from graph x p)"
  by (auto simp add: cache_ok_def)

lemma cycle_dfs_sound:
  "cache_ok graph cache \<Longrightarrow> cycle_dfs fuel graph node cur level cache = Inr (r, cache')
     \<Longrightarrow> cache_ok graph cache' \<and> (\<forall>p. r = Some p \<longrightarrow> path_from graph cur p)"
  "cache_ok graph cache \<Longrightarrow> cycle_dfs_for fuel graph node cur nbs level cache = Inr (r, cache')
     \<Longrightarrow> (\<forall>v \<in> set nbs. input_edge graph cur v)
     \<Longrightarrow> cache_ok graph cache' \<and> (\<forall>p. r = Some p \<longrightarrow> path_from graph cur p)"
proof (induction fuel graph node cur level cache and fuel graph node cur nbs level cache
    arbitrary: r cache' and r cache' rule: cycle_dfs_cycle_dfs_for.induct)
  case (1 graph node cur level cache)
  then show ?case by (auto split: option.splits dest: cache_ok_hit)
next
  case (2 fuel graph node cur level cache)
  show ?case
  proof (cases "cache (cur, level)")
    case (Some a)
    then show ?thesis using 2(2,3) by (auto dest: cache_ok_hit)
  next
    case None
    show ?thesis
    proof (cases "cur = node \<and> level \<noteq> 0")
      case True
      then have r: "r = Some [cur]" and c': "cache' = cache((cur, level) \<mapsto> r)"
        using 2(3) None by auto
      have p: "\<forall>p. r = Some p \<longrightarrow> path_from graph cur p"
        using r by (simp add: path_from_def)
      from cache_ok_upd[OF 2(2) p] p c' show ?thesis by blast
    next
      case False
      show ?thesis
      proof (cases "map_of graph cur")
        case none: None
        then show ?thesis using 2(3) None False by auto
      next
        case (Some nbs)
        show ?thesis
        proof (cases "length nbs = 0")
          case True
          then have r: "r = None" and c': "cache' = cache((cur, level) \<mapsto> r)"
            using 2(3) None False Some by auto
          have p: "\<forall>p. r = Some p \<longrightarrow> path_from graph cur p"
            using r by simp
          from cache_ok_upd[OF 2(2) p] p c' show ?thesis by blast
        next
          case nonempty: False
          then obtain c1 where run: "cycle_dfs_for fuel graph node cur nbs (level + 1) cache = Inr (r, c1)"
            and c': "cache' = c1((cur, level) \<mapsto> r)"
            using 2(3) None False Some by (auto split: sum.splits)
          have edges: "\<forall>v \<in> set nbs. input_edge graph cur v"
            using Some by (simp add: input_edge_def)
          from 2(1)[OF None False Some nonempty 2(2) run edges]
          have c1: "cache_ok graph c1" and p: "\<forall>p. r = Some p \<longrightarrow> path_from graph cur p" by auto
          from cache_ok_upd[OF c1 p] p c' show ?thesis by blast
        qed
      qed
    qed
  qed
next
  case (3 fuel graph node cur level cache)
  then show ?case by auto
next
  case (4 fuel graph node cur neighbour rest level cache)
  show ?case
  proof (cases "cycle_dfs fuel graph node neighbour level cache")
    case (Inl e)
    then show ?thesis using 4(4) by simp
  next
    case (Inr res)
    obtain r1 c1 where res: "res = (r1, c1)" by (cases res)
    from 4(1)[OF 4(3) Inr[unfolded res]]
    have c1: "cache_ok graph c1" and r1: "\<forall>p. r1 = Some p \<longrightarrow> path_from graph neighbour p" by auto
    show ?thesis
    proof (cases r1)
      case None
      then have "cycle_dfs_for fuel graph node cur rest level c1 = Inr (r, cache')"
        using 4(4) Inr res by simp
      from 4(2)[OF Inr res[symmetric] None c1 this] 4(5) show ?thesis by auto
    next
      case (Some p)
      then have "r = Some (cur # p)" "cache' = c1" using 4(4) Inr res by auto
      moreover have "path_from graph cur (cur # p)"
        using r1 Some 4(5) by (auto intro: path_from_Cons)
      ultimately show ?thesis using c1 by auto
    qed
  qed
qed

lemma cache_ok_empty: "cache_ok graph Map.empty"
  by (simp add: cache_ok_def)

lemma get_cycle_loop_sound:
  "cache_ok graph cache \<Longrightarrow> get_cycle_loop fuel graph nodes cache = Inr (Some p)
     \<Longrightarrow> p \<noteq> [] \<and> path_in graph p"
proof (induction nodes arbitrary: cache)
  case Nil
  then show ?case by simp
next
  case (Cons node nodes)
  show ?case
  proof (cases "cycle_dfs fuel graph node node 0 cache")
    case (Inl e)
    then show ?thesis using Cons.prems(2) by simp
  next
    case (Inr res)
    obtain r c1 where res: "res = (r, c1)" by (cases res)
    from cycle_dfs_sound(1)[OF Cons.prems(1) Inr[unfolded res]]
    have c1: "cache_ok graph c1" and r: "\<forall>q. r = Some q \<longrightarrow> path_from graph node q" by auto
    show ?thesis
    proof (cases "r \<noteq> None \<and> r \<noteq> Some []")
      case True
      then have "r = Some p" using Cons.prems(2) Inr res by simp
      then show ?thesis using r by (simp add: path_from_def)
    next
      case False
      then have "get_cycle_loop fuel graph nodes c1 = Inr (Some p)"
        using Cons.prems(2) Inr res by auto
      from Cons.IH[OF c1 this] show ?thesis .
    qed
  qed
qed

lemma get_cycle_sound:
  assumes "get_cycle P graph node = Inr (Some p)"
  shows "p \<noteq> [] \<and> path_in graph p"
proof (cases "case node of None \<Rightarrow> False | Some n \<Rightarrow> truthy P n")
  case True
  then obtain c1 where "cycle_dfs (limit P) graph (the node) (the node) 0 Map.empty = Inr (Some p, c1)"
    using assms by (auto simp: get_cycle_def split: sum.splits)
  from cycle_dfs_sound(1)[OF cache_ok_empty this] show ?thesis
    by (simp add: path_from_def)
next
  case False
  then have "get_cycle_loop (limit P) graph (map fst graph) Map.empty = Inr (Some p)"
    using assms by (simp add: get_cycle_def)
  from get_cycle_loop_sound[OF cache_ok_empty this] show ?thesis .
qed

lemma cycle_dfs_errors:
  "cycle_dfs fuel graph node cur level cache = Inl e \<Longrightarrow> e = RecursionError \<or> (\<exists>x. e = KeyError x)"
  "cycle_dfs_for fuel graph node cur nbs level cache = Inl e \<Longrightarrow> e = RecursionError \<or> (\<exists>x. e = KeyError x)"
  by (induction fuel graph node cur level cache and fuel graph node cur nbs level cache
      rule: cycle_dfs_cycle_dfs_for.induct)
     (auto split: option.splits if_splits sum.splits)

lemma get_cycle_loop_errors:
  "get_cycle_loop fuel graph nodes cache = Inl e \<Longrightarrow> e = RecursionError \<or> (\<exists>x. e = KeyError x)"
  by (induction nodes arbitrary: cache)
     (auto split: sum.splits if_splits dest: cycle_dfs_errors)

lemma get_cycle_errors:
  "get_cycle P graph node = Inl e \<Longrightarrow> e = RecursionError \<or> (\<exists>x. e = KeyError x)"
  by (auto simp: get_cycle_def split: if_splits sum.splits dest: cycle_dfs_errors get_cycle_loop_errors)

lemma raise_cycle_CycleError:
  assumes "raise_cycle P graph node = CycleError p"
  shows "p \<noteq> [] \<and> path_in graph p \<and> list_all (is_str P) p"
proof (cases "get_cycle P graph node")
  case (Inl e)
  then show ?thesis using assms get_cycle_errors[OF Inl] by (auto simp: raise_cycle_def)
next
  case (Inr cycle)
  then have "cycle = Some p" "list_all (is_str P) p"
    using assms by (auto simp: raise_cycle_def CycleError_init_def split: option.splits if_splits)
  then show ?thesis using get_cycle_sound[of P graph node p] Inr by simp
qed

lemma dfs_CycleError:
  "dfs P graph new_graph cv node st = Inl (CycleError p)
     \<Longrightarrow> p \<noteq> [] \<and> path_in graph p \<and> list_all (is_str P) p"
  "dfs_for P graph new_graph cv nodes st = Inl (CycleError p)
     \<Longrightarrow> p \<noteq> [] \<and> path_in graph p \<and> list_all (is_str P) p"
proof (induction P graph new_graph cv node st and P graph new_graph cv nodes st
    rule: dfs_dfs_for.induct)
  case (1 P graph new_graph currently_visiting node visited sorted_list)
  show ?case
  proof (cases "node \<in> currently_visiting")
    case True
    then have "raise_cycle P graph (Some node) = CycleError p"
      using 1(2) by (simp add: raise_cycle_def)
    then show ?thesis by (rule raise_cycle_CycleError)
  next
    case False
    then show ?thesis using 1 by (auto split: option.splits sum.splits)
  qed
next
  case (2 P graph new_graph currently_visiting st)
  then show ?case by simp
next
  case (3 P graph new_graph currently_visiting neighbour rest visited sorted_list)
  then show ?case by (auto split: if_splits sum.splits)
qed

lemma node_loop_errors:
  "node_loop graph indegree queue visited out = (out', visited', Some e) \<Longrightarrow> \<exists>x. e = KeyError x"
  by (induction graph indegree queue visited out rule: node_loop.induct)
     (auto split: option.splits prod.splits)

lemma group_loop_errors:
  "group_loop graph sort_groups indegree queue visited batch next_degree out = (out', visited', Some e)
     \<Longrightarrow> \<exists>x. e = KeyError x"
  by (induction graph sort_groups indegree queue visited batch next_degree out rule: group_loop.induct)
     (auto split: option.splits prod.splits if_splits)

lemma check_cycle_CycleError:
  "check_cycle P graph visited = Some (CycleError p) \<Longrightarrow> p \<noteq> [] \<and> list_all (is_str P) p"
  using raise_cycle_CycleError[of P "filter (\<lambda>(node, neighbours). node \<notin> visited) graph" None p]
  by (auto simp: check_cycle_def raise_cycle_def split: if_splits)

lemma node_generator_CycleError:
  "node_generator P graph indegree queue = (out, Some (CycleError p))
     \<Longrightarrow> p \<noteq> [] \<and> list_all (is_str P) p"
  by (auto simp: node_generator_def split: prod.splits option.splits
      dest: node_loop_errors check_cycle_CycleError)

lemma group_generator_CycleError:
  "group_generator P graph indegree queue sort_groups = (out, Some (CycleError p))
     \<Longrightarrow> p \<noteq> [] \<and> list_all (is_str P) p"
  by (auto simp: group_generator_def split: prod.splits option.splits
      dest: group_loop_errors check_cycle_CycleError)

lemma generator_CycleError:
  "topological_sort_generator P graph return_type sort_groups graph_type = (out, Some (CycleError p))
     \<Longrightarrow> p \<noteq> [] \<and> list_all (is_str P) p"
  unfolding topological_sort_generator_def
  by (auto simp: Let_def split: prod.splits if_splits
      dest: node_generator_CycleError group_generator_CycleError)

lemma dfs_topological_sort_CycleError:
  "dfs_topological_sort P graph graph_type = Inl (CycleError p)
     \<Longrightarrow> p \<noteq> [] \<and> path_in graph p \<and> list_all (is_str P) p"
  unfolding dfs_topological_sort_def
  by (auto split: prod.splits sum.splits dest: dfs_CycleError(2))

lemma topological_sort_dfs_CycleError:
  assumes "topological_sort P graph ''dfs'' return_type sort_groups graph_type = Inl (CycleError p)"
  shows "p \<noteq> [] \<and> path_in graph p \<and> list_all (is_str P) p"
proof -
  have "dfs_topological_sort P graph graph_type = Inl (CycleError p)"
    using assms
    by (auto simp: topological_sort_def validate_return_type_def validate_graph_type_def
        split: option.splits if_splits sum.splits)
  then show ?thesis by (rule dfs_topological_sort_CycleError)
qed

lemma topological_sort_CycleError:
  assumes "topological_sort P graph sort_method return_type sort_groups graph_type = Inl (CycleError p)"
  shows "p \<noteq> [] \<and> list_all (is_str P) p"
proof (cases "sort_method = ''bfs''")
  case True
  then obtain out where "topological_sort_generator P graph return_type sort_groups graph_type
      = (out, Some (CycleError p))"
    using assms
    by (auto simp: topological_sort_def validate_return_type_def validate_graph_type_def
        bfs_topological_sort_def split: option.splits if_splits prod.splits)
  then show ?thesis by (rule generator_CycleError)
next
  case False
  then have "sort_method = ''dfs''"
    using assms
    by (auto simp: topological_sort_def validate_return_type_def validate_graph_type_def
        split: option.splits if_splits)
  then show ?thesis using topological_sort_dfs_CycleError assms by blast
qed

subsection \<open>A locator that does not return\<close>

lemma two_cycle_diverges:
  assumes "map_of graph c = Some [d]" "map_of graph d = Some [c]" "node \<noteq> c" "node \<noteq> d"
  shows "cycle_dfs fuel graph node c level Map.empty = Inl RecursionError \<and>
         cycle_dfs fuel graph node d level Map.empty = Inl RecursionError"
  using assms by (induction fuel arbitrary: level) simp_all

lemma TWO_CYCLES_locator:
  "cycle_dfs fuel TWO_CYCLES ''A'' ''A'' 0 Map.empty = Inl RecursionError"
proof -
  have "cycle_dfs f TWO_CYCLES ''A'' ''C'' (Suc 0) Map.empty = Inl RecursionError" for f
    using two_cycle_diverges[of TWO_CYCLES "''C''" "''D''" "''A''" f "Suc 0"]
    by (simp add: TWO_CYCLES_def)
  then show ?thesis by (cases fuel) (simp_all add: TWO_CYCLES_def)
qed

lemma TWO_CYCLES_check_cycle:
  "check_cycle P TWO_CYCLES {} = Some RecursionError"
proof -
  have "length TWO_CYCLES = 4" "filter (\<lambda>(node, neighbours). node \<notin> {}) TWO_CYCLES = TWO_CYCLES"
    "map fst TWO_CYCLES = [''A'', ''B'', ''C'', ''D'']"
    by (simp_all add: TWO_CYCLES_def)
  then show ?thesis by (simp add: check_cycle_def get_cycle_def TWO_CYCLES_locator)
qed

lemma prepare_TWO_CYCLES:
  "prepare_graph TWO_CYCLES =
     (TWO_CYCLES, (\<lambda>_. 0)(''C'' := 2, ''B'' := 1, ''A'' := 1, ''D'' := 1))"
  by (simp add: prepare_graph_def TWO_CYCLES_def fun_upd_twist)

lemma TWO_CYCLES_keys: "map fst TWO_CYCLES = [''A'', ''B'', ''C'', ''D'']"
  by (simp add: TWO_CYCLES_def)

lemma INT_TWO_CYCLES_locator:
  "cycle_dfs fuel INT_TWO_CYCLES 1 1 0 Map.empty = Inl RecursionError"
proof -
  have "cycle_dfs f INT_TWO_CYCLES 1 3 (Suc 0) Map.empty = Inl RecursionError" for f
    using two_cycle_diverges[of INT_TWO_CYCLES 3 4 1 f "Suc 0"]
    by (simp add: INT_TWO_CYCLES_def)
  then show ?thesis by (cases fuel) (simp_all add: INT_TWO_CYCLES_def)
qed

lemma INT_TWO_CYCLES_check_cycle:
  "check_cycle P INT_TWO_CYCLES {} = Some RecursionError"
proof -
  have "length INT_TWO_CYCLES = 4"
    "filter (\<lambda>(node, neighbours). node \<notin> {}) INT_TWO_CYCLES = INT_TWO_CYCLES"
    "map fst INT_TWO_CYCLES = [1, 2, 3, 4]"
    by (simp_all add: INT_TWO_CYCLES_def)
  then show ?thesis by (simp add: check_cycle_def get_cycle_def INT_TWO_CYCLES_locator)
qed

lemma prepare_INT_TWO_CYCLES:
  "prepare_graph INT_TWO_CYCLES =
     (INT_TWO_CYCLES, (\<lambda>_. 0)(3 := 2, 2 := 1, 1 := 1, 4 := 1))"
  by (simp add: prepare_graph_def INT_TWO_CYCLES_def fun_upd_twist)

lemma INT_TWO_CYCLES_keys: "map fst INT_TWO_CYCLES = [1, 2, 3, 4]"
  by (simp add: INT_TWO_CYCLES_def)

text \<open>
  C4, at a failing input. On \<^verbatim>\<open>{'A': ['C','B'], 'B': ['A'], 'C': ['D'], 'D': ['C']}\<close> no
  indegree is zero, so nothing is yielded and the cycle locator starts at A. It follows
  the first neighbour into the cycle of C and D, which never leads back to A, and the
  level of the cache key grows with every call: the recursion ends in
  \<^verbatim>\<open>RecursionError\<close>, whatever the recursion limit, and no \<^verbatim>\<open>CycleError\<close> is raised.
\<close>

theorem C4_locator_diverges:
  "topological_sort P TWO_CYCLES ''bfs'' ''nodes'' False ''edges'' = Inl RecursionError \<and>
   topological_sort_generator P TWO_CYCLES ''nodes'' False ''edges'' = (Nodes [], Some RecursionError)"
  by (simp add: topological_sort_def validate_return_type_def validate_graph_type_def
      bfs_topological_sort_def topological_sort_generator_def prepare_TWO_CYCLES TWO_CYCLES_keys
      node_generator_def TWO_CYCLES_check_cycle)

lemma INT_TWO_CYCLES_bfs:
  "topological_sort (int_nodes 1000) INT_TWO_CYCLES ''bfs'' ''nodes'' False ''edges''
     = Inl RecursionError"
  by (simp add: topological_sort_def validate_return_type_def validate_graph_type_def
      bfs_topological_sort_def topological_sort_generator_def prepare_INT_TWO_CYCLES
      INT_TWO_CYCLES_keys node_generator_def INT_TWO_CYCLES_check_cycle)

lemma prepare_IMPLICIT_NODE:
  "prepare_graph IMPLICIT_NODE =
     ([(''A'', [''B'', ''C'']), (''B'', []), (''C'', [''A''])],
      (\<lambda>_. 0)(''B'' := 1, ''C'' := 1, ''A'' := 1))"
  by (simp add: prepare_graph_def IMPLICIT_NODE_def fun_upd_twist)

lemma IMPLICIT_NODE_bfs:
  "topological_sort (P\<lparr>limit := Suc (Suc (Suc n)), is_str := \<lambda>s. True\<rparr>) IMPLICIT_NODE ''bfs'' ''nodes'' False ''edges''
     = Inl (CycleError [''A'', ''C'', ''A''])"
  by (simp add: topological_sort_def validate_return_type_def validate_graph_type_def
      bfs_topological_sort_def topological_sort_generator_def prepare_IMPLICIT_NODE
      node_generator_def check_cycle_def get_cycle_def CycleError_init_def)

lemma IMPLICIT_NODE_dfs:
  "topological_sort (P\<lparr>limit := Suc (Suc n), truthy := \<lambda>s. s \<noteq> []\<rparr>) IMPLICIT_NODE ''dfs'' ''nodes'' False ''edges''
     = Inl (KeyError ''B'')"
  by (simp add: topological_sort_def validate_return_type_def validate_graph_type_def
      dfs_topological_sort_def prepare_IMPLICIT_NODE get_cycle_def)
     (simp add: IMPLICIT_NODE_def)

lemma evaluate_str_nodes:
  "limit (str_nodes n) = n" "truthy (str_nodes n) s = (s \<noteq> [])" "is_str (str_nodes n) s = True"
  by (simp_all add: str_nodes_def)

lemma IMPLICIT_NODE_bfs_str:
  "topological_sort (str_nodes 1000) IMPLICIT_NODE ''bfs'' ''nodes'' False ''edges''
     = Inl (CycleError [''A'', ''C'', ''A''])"
  by (simp add: topological_sort_def validate_return_type_def validate_graph_type_def
      bfs_topological_sort_def topological_sort_generator_def prepare_IMPLICIT_NODE
      node_generator_def check_cycle_def get_cycle_def CycleError_init_def evaluate_str_nodes
      numeral_eq_Suc)

lemma IMPLICIT_NODE_dfs_str:
  "topological_sort (str_nodes 1000) IMPLICIT_NODE ''dfs'' ''nodes'' False ''edges''
     = Inl (KeyError ''B'')"
  by (simp add: topological_sort_def validate_return_type_def validate_graph_type_def
      dfs_topological_sort_def prepare_IMPLICIT_NODE get_cycle_def evaluate_str_nodes
      numeral_eq_Suc)
     (simp add: IMPLICIT_NODE_def)

text \<open>
  C6, at a failing input. On \<^verbatim>\<open>{'A': ['B','C'], 'C': ['A']}\<close> the breadth-first method
  raises \<^verbatim>\<open>CycleError\<close> with the path A, C, A. The depth-first method finds the same cycle,
  then searches the input mapping, where B is no key: it raises \<^verbatim>\<open>KeyError\<close>.
\<close>

theorem C6_methods_disagree:
  "topological_sort (str_nodes 1000) IMPLICIT_NODE ''bfs'' ''nodes'' False ''edges''
     = Inl (CycleError [''A'', ''C'', ''A'']) \<and>
   topological_sort (str_nodes 1000) IMPLICIT_NODE ''dfs'' ''nodes'' False ''edges''
     = Inl (KeyError ''B'')"
  using IMPLICIT_NODE_bfs_str IMPLICIT_NODE_dfs_str by (rule conjI)

lemma prepare_SELF_LOOP:
  "prepare_graph SELF_LOOP = (NO_SELF_LOOP, (\<lambda>_. 0)(''B'' := 1, ''A'' := 1))"
  by (simp add: prepare_graph_def SELF_LOOP_def NO_SELF_LOOP_def fun_upd_twist)

lemma prepare_NO_SELF_LOOP:
  "prepare_graph NO_SELF_LOOP = (NO_SELF_LOOP, (\<lambda>_. 0)(''B'' := 1, ''A'' := 1))"
  by (simp add: prepare_graph_def NO_SELF_LOOP_def fun_upd_twist)

lemma NO_SELF_LOOP_lookup:
  "map_of NO_SELF_LOOP ''A'' = Some [''B'']" "map_of NO_SELF_LOOP ''B'' = Some [''A'']"
  "map fst NO_SELF_LOOP = [''A'', ''B'']"
  by (simp_all add: NO_SELF_LOOP_def)

lemma SELF_LOOP_dfs:
  "topological_sort (str_nodes 1000) SELF_LOOP ''dfs'' ''nodes'' False ''edges''
     = Inl (CycleError [''A'', ''A''])"
proof -
  have "get_cycle (str_nodes 1000) SELF_LOOP (Some ''A'') = Inr (Some [''A'', ''A''])"
    by (simp add: get_cycle_def evaluate_str_nodes numeral_eq_Suc SELF_LOOP_def)
  then show ?thesis
    by (simp add: topological_sort_def validate_return_type_def validate_graph_type_def
      dfs_topological_sort_def prepare_SELF_LOOP CycleError_init_def evaluate_str_nodes
      NO_SELF_LOOP_lookup)
qed

lemma NO_SELF_LOOP_dfs:
  "topological_sort (str_nodes 1000) NO_SELF_LOOP ''dfs'' ''nodes'' False ''edges''
     = Inl (CycleError [''A'', ''B'', ''A''])"
proof -
  have "get_cycle (str_nodes 1000) NO_SELF_LOOP (Some ''A'') = Inr (Some [''A'', ''B'', ''A''])"
    by (simp add: get_cycle_def evaluate_str_nodes numeral_eq_Suc NO_SELF_LOOP_def)
  then show ?thesis
    by (simp add: topological_sort_def validate_return_type_def validate_graph_type_def
      dfs_topological_sort_def prepare_NO_SELF_LOOP CycleError_init_def evaluate_str_nodes
      NO_SELF_LOOP_lookup)
qed

text \<open>
  C8, at a failing input. \<^verbatim>\<open>{'A': ['A','B'], 'B': ['A']}\<close> and \<^verbatim>\<open>{'A': ['B'], 'B': ['A']}\<close>
  have the same canonical graph and indegrees, but the depth-first method reports the
  cycle A, A for the first (along the self-reference) and A, B, A for the second.
\<close>

theorem C8_self_loop_in_cycle_path:
  "topological_sort (str_nodes 1000) SELF_LOOP ''dfs'' ''nodes'' False ''edges''
     = Inl (CycleError [''A'', ''A'']) \<and>
   topological_sort (str_nodes 1000) NO_SELF_LOOP ''dfs'' ''nodes'' False ''edges''
     = Inl (CycleError [''A'', ''B'', ''A'']) \<and>
   prepare_graph SELF_LOOP = prepare_graph NO_SELF_LOOP"
  using SELF_LOOP_dfs NO_SELF_LOOP_dfs prepare_SELF_LOOP prepare_NO_SELF_LOOP by simp

lemma edges_DEPENDENCY_CYCLE:
  "get_edges_from_dependencies DEPENDENCY_CYCLE =
     ([(''A'', [''C'']), (''B'', [''A'']), (''C'', [''B''])],
      (\<lambda>_. 0)(''A'' := 1, ''B'' := 1, ''C'' := 1))"
  by (simp add: get_edges_from_dependencies_def DEPENDENCY_CYCLE_def fun_upd_twist)

lemma DEPENDENCY_CYCLE_dfs:
  "topological_sort (str_nodes 1000) DEPENDENCY_CYCLE ''dfs'' ''nodes'' False ''dependencies''
     = Inl (CycleError [''A'', ''B'', ''C'', ''A''])"
proof -
  have "get_cycle (str_nodes 1000) DEPENDENCY_CYCLE (Some ''A'')
      = Inr (Some [''A'', ''B'', ''C'', ''A''])"
    by (simp add: get_cycle_def evaluate_str_nodes numeral_eq_Suc DEPENDENCY_CYCLE_def)
  then show ?thesis
    by (simp add: topological_sort_def validate_return_type_def validate_graph_type_def
      dfs_topological_sort_def edges_DEPENDENCY_CYCLE CycleError_init_def evaluate_str_nodes)
qed

text \<open>
  C9. A \<^verbatim>\<open>CycleError\<close> of the depth-first method carries a non-empty path whose
  consecutive nodes are entries of the input mapping. They need not be edges of the
  canonical graph: for the dependencies A on B, B on C, C on A the path is A, B, C, A,
  the reverse of the canonical edges; for a node that lists itself the path A, A runs
  along the self-reference, which is no canonical edge.
\<close>

theorem C9_dfs_cycle_from_input:
  "(topological_sort P graph ''dfs'' return_type sort_groups graph_type = Inl (CycleError cycle)
      \<longrightarrow> cycle \<noteq> [] \<and> path_in graph cycle) \<and>
   topological_sort (str_nodes 1000) DEPENDENCY_CYCLE ''dfs'' ''nodes'' False ''dependencies''
     = Inl (CycleError [''A'', ''B'', ''C'', ''A'']) \<and>
   \<not> path_in (fst (get_edges_from_dependencies DEPENDENCY_CYCLE)) [''A'', ''B'', ''C'', ''A''] \<and>
   topological_sort (str_nodes 1000) SELF_LOOP ''dfs'' ''nodes'' False ''edges''
     = Inl (CycleError [''A'', ''A'']) \<and>
   \<not> path_in (fst (prepare_graph SELF_LOOP)) [''A'', ''A'']"
proof (intro conjI impI)
  assume "topological_sort P graph ''dfs'' return_type sort_groups graph_type = Inl (CycleError cycle)"
  from topological_sort_dfs_CycleError[OF this]
  show "cycle \<noteq> []" "path_in graph cycle" by simp_all
next
  show "\<not> path_in (fst (get_edges_from_dependencies DEPENDENCY_CYCLE)) [''A'', ''B'', ''C'', ''A'']"
    by (simp add: edges_DEPENDENCY_CYCLE input_edge_def)
  show "\<not> path_in (fst (prepare_graph SELF_LOOP)) [''A'', ''A'']"
    by (simp add: prepare_SELF_LOOP NO_SELF_LOOP_def input_edge_def)
qed (rule DEPENDENCY_CYCLE_dfs SELF_LOOP_dfs)+

theorem C9_dfs_cycle_from_input_witness:
  "[''A'', ''B'', ''C'', ''A''] \<noteq> [] \<and> path_in DEPENDENCY_CYCLE [''A'', ''B'', ''C'', ''A'']"
  using C9_dfs_cycle_from_input [of "str_nodes 1000" DEPENDENCY_CYCLE "''nodes''" False
      "''dependencies''" "[''A'', ''B'', ''C'', ''A'']"] DEPENDENCY_CYCLE_dfs
  by blast

text \<open>
  A \<^verbatim>\<open>CycleError\<close> that leaves \<^verbatim>\<open>topological_sort\<close> carries a non-empty path of strings
  only; when no node is a string, no \<^verbatim>\<open>CycleError\<close> leaves it. Building the error for a
  path with a node that is not a string, or for \<^verbatim>\<open>None\<close>, raises \<^verbatim>\<open>TypeError\<close>.
\<close>

lemma cycle_error_needs_strings:
  "(topological_sort P graph sort_method return_type sort_groups graph_type = Inl (CycleError cycle)
      \<longrightarrow> cycle \<noteq> [] \<and> list_all (is_str P) cycle) \<and>
   ((\<forall>x. \<not> is_str P x)
      \<longrightarrow> topological_sort P graph sort_method return_type sort_groups graph_type
            \<noteq> Inl (CycleError cycle)) \<and>
   (\<not> list_all (is_str P) c \<longrightarrow> CycleError_init P (Some c) = TypeError) \<and>
   CycleError_init P None = TypeError"
proof (intro conjI impI)
  assume "topological_sort P graph sort_method return_type sort_groups graph_type
      = Inl (CycleError cycle)"
  from topological_sort_CycleError[OF this]
  show "cycle \<noteq> []" "list_all (is_str P) cycle" by simp_all
next
  assume none: "\<forall>x. \<not> is_str P x"
  show "topological_sort P graph sort_method return_type sort_groups graph_type
      \<noteq> Inl (CycleError cycle)"
  proof
    assume "topological_sort P graph sort_method return_type sort_groups graph_type
      = Inl (CycleError cycle)"
    from topological_sort_CycleError[OF this] none show False
      by (cases cycle) simp_all
  qed
next
  assume "\<not> list_all (is_str P) c"
  then show "CycleError_init P (Some c) = TypeError" by (simp add: CycleError_init_def)
next
  show "CycleError_init P None = TypeError" by (simp add: CycleError_init_def)
qed

text \<open>
  When the locator returns and no node is a string, the \<^verbatim>\<open>raise\<close> ends in \<^verbatim>\<open>TypeError\<close>.
\<close>

lemma raise_cycle_TypeError:
  assumes "\<forall>x. \<not> is_str P x" "get_cycle P graph node = Inr cycle"
  shows "raise_cycle P graph node = TypeError"
proof (cases cycle)
  case None
  then show ?thesis using assms(2) by (simp add: raise_cycle_def CycleError_init_def)
next
  case (Some p)
  then have "p \<noteq> []" using get_cycle_sound[of P graph node p] assms(2) by simp
  then have "\<not> list_all (is_str P) p" using assms(1) by (cases p) simp_all
  then show ?thesis using assms(2) Some by (simp add: raise_cycle_def CycleError_init_def)
qed

lemma prepare_INT_CYCLE:
  "prepare_graph INT_CYCLE = (INT_CYCLE, (\<lambda>_. 0)(2 := 1, 1 := 1))"
  by (simp add: prepare_graph_def INT_CYCLE_def fun_upd_twist)

lemma INT_CYCLE_lookup:
  "map_of INT_CYCLE 1 = Some [2]" "map_of INT_CYCLE 2 = Some [1]"
  "map fst INT_CYCLE = [1, 2]" "length INT_CYCLE = 2"
  "filter (\<lambda>(node, neighbours). node \<notin> {}) INT_CYCLE = INT_CYCLE"
  by (simp_all add: INT_CYCLE_def)

lemma evaluate_int_nodes:
  "limit (int_nodes n) = n" "truthy (int_nodes n) i = (i \<noteq> 0)" "is_str (int_nodes n) i = False"
  by (simp_all add: int_nodes_def)

lemma INT_CYCLE_bfs:
  "topological_sort (int_nodes 1000) INT_CYCLE ''bfs'' ''nodes'' False ''edges'' = Inl TypeError"
proof -
  have "get_cycle (int_nodes 1000) INT_CYCLE None = Inr (Some [1, 2, 1])"
    by (simp add: get_cycle_def evaluate_int_nodes numeral_eq_Suc INT_CYCLE_lookup)
  then have "check_cycle (int_nodes 1000) INT_CYCLE {} = Some TypeError"
    by (simp add: check_cycle_def INT_CYCLE_lookup CycleError_init_def evaluate_int_nodes)
  then show ?thesis
    by (simp add: topological_sort_def validate_return_type_def validate_graph_type_def
      bfs_topological_sort_def topological_sort_generator_def prepare_INT_CYCLE
      node_generator_def INT_CYCLE_lookup)
qed

lemma INT_CYCLE_dfs:
  "topological_sort (int_nodes 1000) INT_CYCLE ''dfs'' ''nodes'' False ''edges'' = Inl TypeError"
proof -
  have "get_cycle (int_nodes 1000) INT_CYCLE (Some 1) = Inr (Some [1, 2, 1])"
    by (simp add: get_cycle_def evaluate_int_nodes numeral_eq_Suc INT_CYCLE_lookup)
  then show ?thesis
    by (simp add: topological_sort_def validate_return_type_def validate_graph_type_def
      dfs_topological_sort_def prepare_INT_CYCLE CycleError_init_def evaluate_int_nodes
      INT_CYCLE_lookup)
qed

text \<open>
  C10, at a failing input. With integer nodes, \<^verbatim>\<open>{1: [2], 2: [1]}\<close> ends in \<^verbatim>\<open>TypeError\<close>
  under both methods, as the claim says: the locator returns 1, 2, 1 and the message
  cannot be joined. On \<^verbatim>\<open>{1: [3, 2], 2: [1], 3: [4], 4: [3]}\<close> the breadth-first call
  ends in \<^verbatim>\<open>RecursionError\<close> instead: the locator, started at 1, follows 3 into the cycle
  of 3 and 4 and never returns, so no message is ever built.
\<close>

theorem C10_locator_fails_before_message:
  "topological_sort (int_nodes 1000) INT_TWO_CYCLES ''bfs'' ''nodes'' False ''edges''
     = Inl RecursionError \<and>
   topological_sort (int_nodes 1000) INT_CYCLE ''bfs'' ''nodes'' False ''edges'' = Inl TypeError \<and>
   topological_sort (int_nodes 1000) INT_CYCLE ''dfs'' ''nodes'' False ''edges'' = Inl TypeError"
  using INT_TWO_CYCLES_bfs INT_CYCLE_bfs INT_CYCLE_dfs by (intro conjI)

section \<open>The streaming entry point\<close>








end
